theory Spec2Isabelle
  imports Complex_Main "HOL-Library.Multiset"
begin

section \<open>Earthquake epicenter location by divide and conquer\<close>

text \<open>
  A shallow embedding of \<^verbatim>\<open>src/earthquake_locator.cpp\<close>: the structs
  \<^verbatim>\<open>SeismicStation\<close>, \<^verbatim>\<open>Point\<close>, \<^verbatim>\<open>GeoBounds\<close>, \<^verbatim>\<open>Quadrant\<close>,
  \<^verbatim>\<open>EpicenterResult\<close> and the three methods \<^verbatim>\<open>locateEpicenter\<close>,
  \<^verbatim>\<open>simpleTriangulation\<close> and \<^verbatim>\<open>weightedCombination\<close> of the class
  \<^verbatim>\<open>EarthquakeEpicenterLocator\<close>.

  Numbers. The file holds two models of the arithmetic on \<^verbatim>\<open>double\<close>.

  In the first, a \<^verbatim>\<open>double\<close> is a \<^typ>\<open>real\<close> (the type the specification's data
  model gives to coordinates, times, confidences and errors) and every operation is
  exact. It is used for the statements that say which formula the code computes or
  that do not depend on the arithmetic: termination (C1), the partition of the stations
  (C2), the weighted location (C3), the combiner's formulas (C5) and the dispatch below
  the threshold (C7, C8, C9). A \<^verbatim>\<open>std::vector\<close> is a list, \<^verbatim>\<open>size()\<close> is
  \<^const>\<open>length\<close>, and a loop over a vector is a \<^const>\<open>fold\<close> whose accumulator holds
  the variables the loop writes. The quotients of this model are HOL's total division:
  past its two early returns \<^verbatim>\<open>simpleTriangulation\<close> divides by \<^verbatim>\<open>total_weight\<close>,
  which is positive (lemma \<open>simpleTriangulation_total_weight_pos\<close>), by
  \<^verbatim>\<open>WAVE_VELOCITY\<close> and by the station count; \<^verbatim>\<open>weightedCombination\<close> divides by a
  \<^verbatim>\<open>total_weight\<close> that is 0 when the confidences it is given sum to 0, where the
  source yields NaN or an infinity.

  In the second (section \<open>Double arithmetic with overflow\<close>), a \<^verbatim>\<open>double\<close>
  is a finite real, plus infinity, minus infinity or NaN, and the operations overflow to
  the infinities and produce NaN as IEEE 754 prescribes. It is used for the statements
  that bound or compare computed values, which exact arithmetic gets wrong once a sum or
  a product leaves the range of \<^verbatim>\<open>double\<close>: the split of a region (C6), the error and
  confidence of the base case (C4), and the positivity of the confidences inside the
  recursion (C10).
\<close>

subsection \<open>Data\<close>

text \<open>\<^verbatim>\<open>struct SeismicStation\<close> (lines 14-22). The field \<^verbatim>\<open>id\<close> is written
  \<open>id'\<close>, since \<open>id\<close> is the identity function of HOL.\<close>

record SeismicStation =
  latitude :: real
  longitude :: real
  detection_time :: real
  id' :: int

text \<open>\<^verbatim>\<open>struct Point\<close> (lines 25-33); the fields \<^verbatim>\<open>x\<close> and \<^verbatim>\<open>y\<close> are
  written \<open>px\<close> and \<open>py\<close>.\<close>

record Point =
  px :: real
  py :: real

definition distance :: "Point \<Rightarrow> Point \<Rightarrow> real" where
  "distance p other =
     sqrt ((px p - px other) * (px p - px other) + (py p - py other) * (py p - py other))"

text \<open>\<^verbatim>\<open>struct GeoBounds\<close> (lines 36-50).\<close>

record GeoBounds =
  min_lat :: real
  max_lat :: real
  min_lon :: real
  max_lon :: real


definition contains :: "GeoBounds \<Rightarrow> SeismicStation \<Rightarrow> bool" where
  "contains b station \<longleftrightarrow>
     latitude station \<ge> min_lat b \<and> latitude station \<le> max_lat b \<and>
     longitude station \<ge> min_lon b \<and> longitude station \<le> max_lon b"

text \<open>\<^verbatim>\<open>struct Quadrant\<close> (lines 53-60). Its field \<^verbatim>\<open>confidence\<close> is written
  \<open>quad_confidence\<close>, to keep it apart from the field of \<^verbatim>\<open>EpicenterResult\<close>.
  \<open>newQuadrant\<close> is the constructor: empty station vector, default point, confidence 0.\<close>

record Quadrant =
  bounds :: GeoBounds
  stations :: "SeismicStation list"
  estimate :: Point
  quad_confidence :: real

definition newQuadrant :: "GeoBounds \<Rightarrow> Quadrant" where
  "newQuadrant b =
     \<lparr>bounds = b, stations = [], estimate = \<lparr>px = 0, py = 0\<rparr>, quad_confidence = 0\<rparr>"

text \<open>\<^verbatim>\<open>struct EpicenterResult\<close> (lines 63-70).\<close>

record EpicenterResult =
  location :: Point
  confidence :: real
  error :: real

text \<open>The two constants of the class (lines 75-76 and 297).\<close>

definition BASE_CASE_SIZE :: nat where
  "BASE_CASE_SIZE = 8"

definition WAVE_VELOCITY :: real where
  "WAVE_VELOCITY = 6"

subsection \<open>The base-case estimator\<close>

text \<open>\<^verbatim>\<open>simpleTriangulation\<close> (lines 127-170). The three loops over the stations are
  three folds: the first keeps \<^verbatim>\<open>min_time\<close>, the second the triple
  \<^verbatim>\<open>(sum_x, sum_y, total_weight)\<close>, the third \<^verbatim>\<open>error\<close>.\<close>

definition minTimeStep :: "SeismicStation \<Rightarrow> real \<Rightarrow> real" where
  "minTimeStep station min_time = min min_time (detection_time station)"

definition weightStep :: "real \<Rightarrow> SeismicStation \<Rightarrow> real \<times> real \<times> real \<Rightarrow> real \<times> real \<times> real" where
  "weightStep min_time station acc =
     (case acc of (sum_x, sum_y, total_weight) \<Rightarrow>
        let time_diff = detection_time station - min_time;
            weight = 1 / (1 + time_diff * time_diff)
        in (sum_x + latitude station * weight,
            sum_y + longitude station * weight,
            total_weight + weight))"

definition errorStep :: "real \<Rightarrow> Point \<Rightarrow> SeismicStation \<Rightarrow> real \<Rightarrow> real" where
  "errorStep min_time estimated_center station err =
     (let dist = distance estimated_center \<lparr>px = latitude station, py = longitude station\<rparr>;
          theoretical_time = dist / WAVE_VELOCITY;
          actual_time = detection_time station - min_time
      in err + (theoretical_time - actual_time) * (theoretical_time - actual_time))"

definition simpleTriangulation :: "SeismicStation list \<Rightarrow> EpicenterResult" where
  "simpleTriangulation sts =
     (if sts = [] then
        \<lparr>location = \<lparr>px = 0, py = 0\<rparr>, confidence = 0, error = 1000000000\<rparr>
      else if length sts = 1 then
        \<lparr>location = \<lparr>px = latitude (sts ! 0), py = longitude (sts ! 0)\<rparr>,
         confidence = 1, error = 0\<rparr>
      else
        let min_time = fold minTimeStep sts (detection_time (sts ! 0));
            (sum_x, sum_y, total_weight) = fold (weightStep min_time) sts (0, 0, 0);
            estimated_center = \<lparr>px = sum_x / total_weight, py = sum_y / total_weight\<rparr>;
            err = fold (errorStep min_time estimated_center) sts 0;
            conf = 1 / (1 + err / real (length sts))
        in \<lparr>location = estimated_center, confidence = conf, error = err\<rparr>)"

subsection \<open>The combiner\<close>

text \<open>\<^verbatim>\<open>weightedCombination\<close> (lines 173-198). The loop keeps the four variables
  \<^verbatim>\<open>(total_weight, weighted_x, weighted_y, combined_error)\<close>. The two divisions by
  \<^verbatim>\<open>total_weight\<close> are unguarded in the source.\<close>

definition combineStep ::
  "EpicenterResult \<Rightarrow> real \<times> real \<times> real \<times> real \<Rightarrow> real \<times> real \<times> real \<times> real" where
  "combineStep result acc =
     (case acc of (total_weight, weighted_x, weighted_y, combined_error) \<Rightarrow>
        let weight = confidence result
        in (total_weight + weight,
            weighted_x + px (location result) * weight,
            weighted_y + py (location result) * weight,
            combined_error + error result * weight))"

definition weightedCombination :: "EpicenterResult list \<Rightarrow> EpicenterResult" where
  "weightedCombination results =
     (if results = [] then
        \<lparr>location = \<lparr>px = 0, py = 0\<rparr>, confidence = 0, error = 1000000000\<rparr>
      else if length results = 1 then results ! 0
      else
        (case fold combineStep results (0, 0, 0, 0) of
           (total_weight, weighted_x, weighted_y, combined_error) \<Rightarrow>
             let combined_location =
                   \<lparr>px = weighted_x / total_weight, py = weighted_y / total_weight\<rparr>;
                 combined_confidence = total_weight / real (length results)
             in \<lparr>location = combined_location, confidence = combined_confidence,
                 error = combined_error / total_weight\<rparr>))"

subsection \<open>The recursive partitioner\<close>

text \<open>The four quadrants of a region, in the order SW, SE, NW, NE (lines 90-98).\<close>

definition quadrantsOf :: "GeoBounds \<Rightarrow> Quadrant list" where
  "quadrantsOf bnds =
     (let mid_lat = (min_lat bnds + max_lat bnds) / 2;
          mid_lon = (min_lon bnds + max_lon bnds) / 2
      in [newQuadrant \<lparr>min_lat = min_lat bnds, max_lat = mid_lat,
                       min_lon = min_lon bnds, max_lon = mid_lon\<rparr>,
          newQuadrant \<lparr>min_lat = min_lat bnds, max_lat = mid_lat,
                       min_lon = mid_lon, max_lon = max_lon bnds\<rparr>,
          newQuadrant \<lparr>min_lat = mid_lat, max_lat = max_lat bnds,
                       min_lon = min_lon bnds, max_lon = mid_lon\<rparr>,
          newQuadrant \<lparr>min_lat = mid_lat, max_lat = max_lat bnds,
                       min_lon = mid_lon, max_lon = max_lon bnds\<rparr>])"

text \<open>The partition loop (lines 101-108). The inner loop with its \<^verbatim>\<open>break\<close> appends
  the station to the first quadrant whose bounds contain it, and to none when no
  quadrant does; the outer loop runs over the stations in order.\<close>

fun assignStation :: "SeismicStation \<Rightarrow> Quadrant list \<Rightarrow> Quadrant list" where
  "assignStation station [] = []"
| "assignStation station (quad # quads) =
     (if contains (bounds quad) station
      then quad\<lparr>stations := stations quad @ [station]\<rparr> # quads
      else quad # assignStation station quads)"

definition partitionStations :: "SeismicStation list \<Rightarrow> Quadrant list \<Rightarrow> Quadrant list" where
  "partitionStations sts quadrants = fold assignStation sts quadrants"


text \<open>The loop over the quadrants (lines 111-119), with the recursive call as the
  parameter \<open>rec\<close>. It returns the quadrants as the loop leaves them and the vector
  \<^verbatim>\<open>results\<close>. A recursive call that does not return makes the loop not return:
  the value \<open>None\<close>.\<close>

fun solveQuadrants ::
  "(SeismicStation list \<Rightarrow> GeoBounds \<Rightarrow> int \<Rightarrow> EpicenterResult option) \<Rightarrow> int \<Rightarrow>
   Quadrant list \<Rightarrow> EpicenterResult list \<Rightarrow> (Quadrant list \<times> EpicenterResult list) option" where
  "solveQuadrants rec depth [] results = Some ([], results)"
| "solveQuadrants rec depth (quad # quads) results =
     (if stations quad \<noteq> [] then
        Option.bind (rec (stations quad) (bounds quad) (depth + 1)) (\<lambda>result.
          Option.bind (solveQuadrants rec depth quads (results @ [result])) (\<lambda>(quads', results').
            Some (quad\<lparr>estimate := location result, quad_confidence := confidence result\<rparr> # quads',
                  results')))
      else
        Option.bind (solveQuadrants rec depth quads results) (\<lambda>(quads', results').
          Some (quad # quads', results')))"

lemma solveQuadrants_mono [partial_function_mono]:
  assumes "\<And>sts bnds d. mono_option (\<lambda>f. R f sts bnds d)"
  shows "mono_option (\<lambda>f. solveQuadrants (R f) depth quads results)"
proof (induction quads arbitrary: results)
  case Nil
  show ?case by (simp add: option.const_mono)
next
  case (Cons quad quads)
  show ?case
    unfolding solveQuadrants.simps
    by (intro partial_function_mono assms Cons.IH)
qed

text \<open>\<^verbatim>\<open>locateEpicenter\<close> (lines 80-123). The recursion has no measure that the
  source makes decrease, so the function is defined as a partial function into
  \<open>option\<close>: \<open>None\<close> is a call that never returns (in C++ the recursion goes on until
  the stack is exhausted). The parameter \<^verbatim>\<open>depth\<close> (default 0) is passed on as
  \<^verbatim>\<open>depth + 1\<close> and never read; it is an \<^verbatim>\<open>int\<close>, modelled without a bound.\<close>

partial_function (option) locateEpicenter ::
  "SeismicStation list \<Rightarrow> GeoBounds \<Rightarrow> int \<Rightarrow> EpicenterResult option" where
  "locateEpicenter sts bnds depth =
     (if length sts \<le> BASE_CASE_SIZE then Some (simpleTriangulation sts)
      else
        Option.bind
          (solveQuadrants locateEpicenter depth (partitionStations sts (quadrantsOf bnds)) [])
          (\<lambda>(quadrants, results). Some (weightedCombination results)))"

text \<open>Stations that cannot be separated: more than \<open>BASE_CASE_SIZE\<close> stations, all at the
  south-west corner of a region with \<open>min \<le> max\<close> on both axes.\<close>

definition atCorner :: "SeismicStation list \<Rightarrow> GeoBounds \<Rightarrow> bool" where
  "atCorner sts bnds \<longleftrightarrow>
     BASE_CASE_SIZE < length sts \<and>
     list_all (\<lambda>station. latitude station = min_lat bnds \<and> longitude station = min_lon bnds) sts \<and>
     min_lat bnds \<le> max_lat bnds \<and> min_lon bnds \<le> max_lon bnds"

subsection \<open>The specification's formulas\<close>







text \<open>An example input: the region [0,10] x [0,10] and nine stations, two in the interior
  of each quadrant and one, with id 8, on both split lines.\<close>

abbreviation exampleRegion :: GeoBounds where
  "exampleRegion \<equiv> \<lparr>min_lat = 0, max_lat = 10, min_lon = 0, max_lon = 10\<rparr>"


section \<open>Double arithmetic with overflow\<close>

subsection \<open>Values and operations\<close>

text \<open>
  A value of type \<^verbatim>\<open>double\<close>: a finite number \<open>Val x\<close>, plus infinity, minus infinity
  or NaN. \<open>DBL_MAX\<close> is the largest finite double, \<open>(2 - 2\<^sup>-\<^sup>5\<^sup>2) * 2\<^sup>1\<^sup>0\<^sup>2\<^sup>3\<close>. \<open>toDouble\<close>
  delivers the exact result \<open>x\<close> of an operation on finite operands as IEEE 754
  rounding to nearest does at the end of the range: a result of magnitude at least
  \<open>overflowThreshold\<close> = \<open>2\<^sup>1\<^sup>0\<^sup>2\<^sup>4 - 2\<^sup>9\<^sup>7\<^sup>0\<close> becomes an infinity, one between \<open>DBL_MAX\<close>
  and the threshold becomes \<open>DBL_MAX\<close> with its sign, and a result within the range is
  kept as it is. What the model leaves out:
  \<^item> the rounding of a result within the range to 53 significant bits. Rounding to
    nearest is monotone and leaves the numbers of the type as they are, so it can make
    two different results equal but never reverses their order. The theorems of this
    part assert no strict inequality between two computed results. Where they assert
    that a computed confidence is greater than 0, its exact value is at least
    \<open>1 / (1 + DBL_MAX / 2)\<close> in the base case, and in the combiner it is the quotient
    by \<open>k\<close> of a sum of \<open>k\<close> positive doubles; rounding takes neither to 0. Each
    counterexample is an input on which the operations that decide it are exact or
    overflow by hundreds of binary orders of magnitude;
  \<^item> the sign of zero. The source divides by zero only in \<^verbatim>\<open>weightedCombination\<close>,
    by a \<^verbatim>\<open>total_weight\<close> that is a sum started at \<open>+0\<close>, and such a sum is never
    \<open>-0\<close>; so \<open>x / 0\<close> is \<open>x / +0\<close>: NaN for \<open>x = 0\<close> and the infinity of the
    sign of \<open>x\<close> otherwise.
  The operations are \<^verbatim>\<open>-x\<close>, \<^verbatim>\<open>+\<close>, \<^verbatim>\<open>-\<close>, \<^verbatim>\<open>*\<close>, \<^verbatim>\<open>/\<close>, \<^verbatim>\<open>sqrt\<close>, the
  comparisons \<^verbatim>\<open><\<close>, \<^verbatim>\<open><=\<close>, \<^verbatim>\<open>>=\<close> (false as soon as an operand is NaN), and
  \<^verbatim>\<open>std::min(a, b)\<close>, which is \<^verbatim>\<open>(b < a) ? b : a\<close>.
\<close>

datatype double = Val real | PInf | NInf | NaN

definition DBL_MAX :: real where
  "DBL_MAX = 2 ^ 1024 - 2 ^ 971"

definition overflowThreshold :: real where
  "overflowThreshold = 2 ^ 1024 - 2 ^ 970"

definition toDouble :: "real \<Rightarrow> double" where
  "toDouble x =
     (if \<bar>x\<bar> \<le> DBL_MAX then Val x
      else if \<bar>x\<bar> < overflowThreshold then Val (sgn x * DBL_MAX)
      else if 0 < x then PInf else NInf)"

fun dneg :: "double \<Rightarrow> double" where
  "dneg (Val x) = Val (- x)"
| "dneg PInf = NInf"
| "dneg NInf = PInf"
| "dneg NaN = NaN"

fun dadd :: "double \<Rightarrow> double \<Rightarrow> double" where
  "dadd (Val x) (Val y) = toDouble (x + y)"
| "dadd NaN b = NaN"
| "dadd a NaN = NaN"
| "dadd PInf NInf = NaN"
| "dadd NInf PInf = NaN"
| "dadd PInf b = PInf"
| "dadd a PInf = PInf"
| "dadd NInf b = NInf"
| "dadd a NInf = NInf"

definition dsub :: "double \<Rightarrow> double \<Rightarrow> double" where
  "dsub a b = dadd a (dneg b)"

fun dmul :: "double \<Rightarrow> double \<Rightarrow> double" where
  "dmul (Val x) (Val y) = toDouble (x * y)"
| "dmul NaN b = NaN"
| "dmul a NaN = NaN"
| "dmul (Val x) PInf = (if x = 0 then NaN else if 0 < x then PInf else NInf)"
| "dmul (Val x) NInf = (if x = 0 then NaN else if 0 < x then NInf else PInf)"
| "dmul PInf (Val y) = (if y = 0 then NaN else if 0 < y then PInf else NInf)"
| "dmul NInf (Val y) = (if y = 0 then NaN else if 0 < y then NInf else PInf)"
| "dmul PInf PInf = PInf"
| "dmul PInf NInf = NInf"
| "dmul NInf PInf = NInf"
| "dmul NInf NInf = PInf"

fun ddiv :: "double \<Rightarrow> double \<Rightarrow> double" where
  "ddiv (Val x) (Val y) =
     (if y = 0 then (if x = 0 then NaN else if 0 < x then PInf else NInf)
      else toDouble (x / y))"
| "ddiv NaN b = NaN"
| "ddiv a NaN = NaN"
| "ddiv (Val x) PInf = Val 0"
| "ddiv (Val x) NInf = Val 0"
| "ddiv PInf (Val y) = (if 0 \<le> y then PInf else NInf)"
| "ddiv NInf (Val y) = (if 0 \<le> y then NInf else PInf)"
| "ddiv PInf PInf = NaN"
| "ddiv PInf NInf = NaN"
| "ddiv NInf PInf = NaN"
| "ddiv NInf NInf = NaN"

fun dsqrt :: "double \<Rightarrow> double" where
  "dsqrt (Val x) = (if x < 0 then NaN else Val (sqrt x))"
| "dsqrt PInf = PInf"
| "dsqrt NInf = NaN"
| "dsqrt NaN = NaN"

fun dlt :: "double \<Rightarrow> double \<Rightarrow> bool" where
  "dlt (Val x) (Val y) \<longleftrightarrow> x < y"
| "dlt (Val x) PInf \<longleftrightarrow> True"
| "dlt NInf (Val y) \<longleftrightarrow> True"
| "dlt NInf PInf \<longleftrightarrow> True"
| "dlt a b \<longleftrightarrow> False"

fun dle :: "double \<Rightarrow> double \<Rightarrow> bool" where
  "dle (Val x) (Val y) \<longleftrightarrow> x \<le> y"
| "dle (Val x) PInf \<longleftrightarrow> True"
| "dle NInf (Val y) \<longleftrightarrow> True"
| "dle NInf PInf \<longleftrightarrow> True"
| "dle PInf PInf \<longleftrightarrow> True"
| "dle NInf NInf \<longleftrightarrow> True"
| "dle a b \<longleftrightarrow> False"

definition dge :: "double \<Rightarrow> double \<Rightarrow> bool" where
  "dge a b \<longleftrightarrow> dle b a"

definition dmin :: "double \<Rightarrow> double \<Rightarrow> double" where
  "dmin a b = (if dlt b a then b else a)"

subsection \<open>The program in double arithmetic\<close>

text \<open>
  The structs and the methods once more, line for line as in the first part, with
  every \<^verbatim>\<open>double\<close> a \<open>double\<close> and every operation the one above; the names carry the
  suffix \<open>_fp\<close>. \<open>residual_fp\<close> is the squared residual of one station (lines
  162-165), which \<open>errorStep_fp\<close> adds to \<^verbatim>\<open>error\<close>.
\<close>

record SeismicStation_fp =
  latitude_fp :: double
  longitude_fp :: double
  detection_time_fp :: double
  id_fp :: int

record Point_fp =
  px_fp :: double
  py_fp :: double

definition distance_fp :: "Point_fp \<Rightarrow> Point_fp \<Rightarrow> double" where
  "distance_fp p other =
     dsqrt (dadd (dmul (dsub (px_fp p) (px_fp other)) (dsub (px_fp p) (px_fp other)))
                 (dmul (dsub (py_fp p) (py_fp other)) (dsub (py_fp p) (py_fp other))))"

record GeoBounds_fp =
  min_lat_fp :: double
  max_lat_fp :: double
  min_lon_fp :: double
  max_lon_fp :: double

definition center_fp :: "GeoBounds_fp \<Rightarrow> Point_fp" where
  "center_fp b =
     \<lparr>px_fp = ddiv (dadd (min_lat_fp b) (max_lat_fp b)) (Val 2),
      py_fp = ddiv (dadd (min_lon_fp b) (max_lon_fp b)) (Val 2)\<rparr>"

definition contains_fp :: "GeoBounds_fp \<Rightarrow> SeismicStation_fp \<Rightarrow> bool" where
  "contains_fp b station \<longleftrightarrow>
     dge (latitude_fp station) (min_lat_fp b) \<and> dle (latitude_fp station) (max_lat_fp b) \<and>
     dge (longitude_fp station) (min_lon_fp b) \<and> dle (longitude_fp station) (max_lon_fp b)"

record Quadrant_fp =
  bounds_fp :: GeoBounds_fp
  stations_fp :: "SeismicStation_fp list"
  estimate_fp :: Point_fp
  quad_confidence_fp :: double

definition newQuadrant_fp :: "GeoBounds_fp \<Rightarrow> Quadrant_fp" where
  "newQuadrant_fp b =
     \<lparr>bounds_fp = b, stations_fp = [], estimate_fp = \<lparr>px_fp = Val 0, py_fp = Val 0\<rparr>,
      quad_confidence_fp = Val 0\<rparr>"

record EpicenterResult_fp =
  location_fp :: Point_fp
  confidence_fp :: double
  error_fp :: double

definition minTimeStep_fp :: "SeismicStation_fp \<Rightarrow> double \<Rightarrow> double" where
  "minTimeStep_fp station min_time = dmin min_time (detection_time_fp station)"

definition weightStep_fp ::
  "double \<Rightarrow> SeismicStation_fp \<Rightarrow> double \<times> double \<times> double \<Rightarrow> double \<times> double \<times> double" where
  "weightStep_fp min_time station acc =
     (case acc of (sum_x, sum_y, total_weight) \<Rightarrow>
        let time_diff = dsub (detection_time_fp station) min_time;
            weight = ddiv (Val 1) (dadd (Val 1) (dmul time_diff time_diff))
        in (dadd sum_x (dmul (latitude_fp station) weight),
            dadd sum_y (dmul (longitude_fp station) weight),
            dadd total_weight weight))"

definition residual_fp :: "double \<Rightarrow> Point_fp \<Rightarrow> SeismicStation_fp \<Rightarrow> double" where
  "residual_fp min_time estimated_center station =
     (let dist = distance_fp estimated_center
                   \<lparr>px_fp = latitude_fp station, py_fp = longitude_fp station\<rparr>;
          theoretical_time = ddiv dist (Val WAVE_VELOCITY);
          actual_time = dsub (detection_time_fp station) min_time
      in dmul (dsub theoretical_time actual_time) (dsub theoretical_time actual_time))"

definition errorStep_fp :: "double \<Rightarrow> Point_fp \<Rightarrow> SeismicStation_fp \<Rightarrow> double \<Rightarrow> double" where
  "errorStep_fp min_time estimated_center station err =
     dadd err (residual_fp min_time estimated_center station)"

definition simpleTriangulation_fp :: "SeismicStation_fp list \<Rightarrow> EpicenterResult_fp" where
  "simpleTriangulation_fp sts =
     (if sts = [] then
        \<lparr>location_fp = \<lparr>px_fp = Val 0, py_fp = Val 0\<rparr>, confidence_fp = Val 0,
         error_fp = Val 1000000000\<rparr>
      else if length sts = 1 then
        \<lparr>location_fp = \<lparr>px_fp = latitude_fp (sts ! 0), py_fp = longitude_fp (sts ! 0)\<rparr>,
         confidence_fp = Val 1, error_fp = Val 0\<rparr>
      else
        let min_time = fold minTimeStep_fp sts (detection_time_fp (sts ! 0));
            (sum_x, sum_y, total_weight) = fold (weightStep_fp min_time) sts (Val 0, Val 0, Val 0);
            estimated_center =
              \<lparr>px_fp = ddiv sum_x total_weight, py_fp = ddiv sum_y total_weight\<rparr>;
            err = fold (errorStep_fp min_time estimated_center) sts (Val 0);
            conf = ddiv (Val 1) (dadd (Val 1) (ddiv err (Val (real (length sts)))))
        in \<lparr>location_fp = estimated_center, confidence_fp = conf, error_fp = err\<rparr>)"



definition quadrantsOf_fp :: "GeoBounds_fp \<Rightarrow> Quadrant_fp list" where
  "quadrantsOf_fp bnds =
     (let mid_lat = ddiv (dadd (min_lat_fp bnds) (max_lat_fp bnds)) (Val 2);
          mid_lon = ddiv (dadd (min_lon_fp bnds) (max_lon_fp bnds)) (Val 2)
      in [newQuadrant_fp \<lparr>min_lat_fp = min_lat_fp bnds, max_lat_fp = mid_lat,
                          min_lon_fp = min_lon_fp bnds, max_lon_fp = mid_lon\<rparr>,
          newQuadrant_fp \<lparr>min_lat_fp = min_lat_fp bnds, max_lat_fp = mid_lat,
                          min_lon_fp = mid_lon, max_lon_fp = max_lon_fp bnds\<rparr>,
          newQuadrant_fp \<lparr>min_lat_fp = mid_lat, max_lat_fp = max_lat_fp bnds,
                          min_lon_fp = min_lon_fp bnds, max_lon_fp = mid_lon\<rparr>,
          newQuadrant_fp \<lparr>min_lat_fp = mid_lat, max_lat_fp = max_lat_fp bnds,
                          min_lon_fp = mid_lon, max_lon_fp = max_lon_fp bnds\<rparr>])"

fun assignStation_fp :: "SeismicStation_fp \<Rightarrow> Quadrant_fp list \<Rightarrow> Quadrant_fp list" where
  "assignStation_fp station [] = []"
| "assignStation_fp station (quad # quads) =
     (if contains_fp (bounds_fp quad) station
      then quad\<lparr>stations_fp := stations_fp quad @ [station]\<rparr> # quads
      else quad # assignStation_fp station quads)"

definition partitionStations_fp ::
  "SeismicStation_fp list \<Rightarrow> Quadrant_fp list \<Rightarrow> Quadrant_fp list" where
  "partitionStations_fp sts quadrants = fold assignStation_fp sts quadrants"

fun solveQuadrants_fp ::
  "(SeismicStation_fp list \<Rightarrow> GeoBounds_fp \<Rightarrow> int \<Rightarrow> EpicenterResult_fp option) \<Rightarrow> int \<Rightarrow>
   Quadrant_fp list \<Rightarrow> EpicenterResult_fp list \<Rightarrow>
   (Quadrant_fp list \<times> EpicenterResult_fp list) option" where
  "solveQuadrants_fp rec depth [] results = Some ([], results)"
| "solveQuadrants_fp rec depth (quad # quads) results =
     (if stations_fp quad \<noteq> [] then
        Option.bind (rec (stations_fp quad) (bounds_fp quad) (depth + 1)) (\<lambda>result.
          Option.bind (solveQuadrants_fp rec depth quads (results @ [result]))
            (\<lambda>(quads', results').
               Some (quad\<lparr>estimate_fp := location_fp result,
                          quad_confidence_fp := confidence_fp result\<rparr> # quads',
                     results')))
      else
        Option.bind (solveQuadrants_fp rec depth quads results) (\<lambda>(quads', results').
          Some (quad # quads', results')))"

lemma solveQuadrants_fp_mono [partial_function_mono]:
  assumes "\<And>sts bnds d. mono_option (\<lambda>f. R f sts bnds d)"
  shows "mono_option (\<lambda>f. solveQuadrants_fp (R f) depth quads results)"
proof (induction quads arbitrary: results)
  case Nil
  show ?case by (simp add: option.const_mono)
next
  case (Cons quad quads)
  show ?case
    unfolding solveQuadrants_fp.simps
    by (intro partial_function_mono assms Cons.IH)
qed



subsection \<open>The specification's formulas in double arithmetic\<close>

text \<open>The formulas of section 4.1 of the specification with the operations of
  \<^verbatim>\<open>double\<close>. A sum of doubles depends on the order of its terms: \<open>dsum\<close> adds them
  from left to right, starting from 0. \<open>specMinTime_fp\<close> is the minimum detection time
  (for finite times it is their least, lemma \<open>specMinTime_fp_finite\<close>),
  \<open>specResidual_fp\<close> the squared difference between \<open>distance(estimate, station) / 6.0\<close>
  and \<open>timeDiff\<close>, \<open>specError_fp\<close> the sum of the residuals over the stations,
  \<open>specConfidence_fp\<close> is \<open>1 / (1 + error / stationCount)\<close>, and
  \<open>normalizedError_fp\<close> is \<open>error / stationCount\<close> of the base-case estimate.\<close>

definition dsum :: "double list \<Rightarrow> double" where
  "dsum xs = foldl dadd (Val 0) xs"

definition specMinTime_fp :: "SeismicStation_fp list \<Rightarrow> double" where
  "specMinTime_fp sts = foldl dmin (detection_time_fp (hd sts)) (map detection_time_fp sts)"

definition specResidual_fp :: "SeismicStation_fp list \<Rightarrow> Point_fp \<Rightarrow> SeismicStation_fp \<Rightarrow> double" where
  "specResidual_fp sts est st =
     (let theoretical =
            ddiv (distance_fp est \<lparr>px_fp = latitude_fp st, py_fp = longitude_fp st\<rparr>) (Val 6);
          timeDiff = dsub (detection_time_fp st) (specMinTime_fp sts)
      in dmul (dsub theoretical timeDiff) (dsub theoretical timeDiff))"

definition specError_fp :: "SeismicStation_fp list \<Rightarrow> Point_fp \<Rightarrow> double" where
  "specError_fp sts est = dsum (map (specResidual_fp sts est) sts)"

definition specConfidence_fp :: "double \<Rightarrow> nat \<Rightarrow> double" where
  "specConfidence_fp err n = ddiv (Val 1) (dadd (Val 1) (ddiv err (Val (real n))))"

definition normalizedError_fp :: "SeismicStation_fp list \<Rightarrow> double" where
  "normalizedError_fp sts =
     ddiv (error_fp (simpleTriangulation_fp sts)) (Val (real (length sts)))"

subsection \<open>Predicates of the statements and proofs\<close>

text \<open>\<open>nonnegDouble\<close>: what a sum of squares can be (a finite number from 0 to
  \<open>DBL_MAX\<close>, plus infinity or NaN). \<open>positiveConfidence\<close>: the confidence is a finite
  number greater than 0 and at most 1; \<open>confidenceValue\<close> is that number.
  \<open>finiteBounds\<close>: the four bounds of a region are finite. \<open>boundedAxes\<close>: on neither
  axis does the region reach from minus infinity to plus infinity (the one case in which
  a midpoint is NaN although the bounds are not). \<open>callAdmissible\<close>: a call on a
  non-empty station list, all within the region, with \<open>boundedAxes\<close>.
  \<open>baseErrorsFinite\<close>: every call at or below the threshold inside the recursion started
  by the call has a base-case estimate with a finite error.\<close>

definition nonnegDouble :: "double \<Rightarrow> bool" where
  "nonnegDouble d =
     (case d of Val x \<Rightarrow> 0 \<le> x \<and> x \<le> DBL_MAX | PInf \<Rightarrow> True | NInf \<Rightarrow> False | NaN \<Rightarrow> True)"







subsection \<open>Example inputs in double arithmetic\<close>

text \<open>The region [0,10] x [0,10] and nine stations with one detection time, listed by
  the quadrant they fall into.\<close>

abbreviation exampleRegion_fp :: GeoBounds_fp where
  "exampleRegion_fp \<equiv>
     \<lparr>min_lat_fp = Val 0, max_lat_fp = Val 10, min_lon_fp = Val 0, max_lon_fp = Val 10\<rparr>"






text \<open>Nine stations inside the same region, three in each of three quadrants, of which
  the first detects at time 0 and the other two at time \<open>farTime\<close> = \<open>2\<^sup>6\<^sup>0\<^sup>0\<close>, a finite
  double whose square is not; and the estimate \<^verbatim>\<open>simpleTriangulation\<close> returns for
  each of the three groups.\<close>

definition farTime :: real where
  "farTime = 2 ^ 600"






section \<open>Splitting a region\<close>





section \<open>Partitioning the stations\<close>

















section \<open>The base-case estimator\<close>



lemma fold_weightStep:
  "fold (weightStep m) sts (sx, sy, tw) =
     (sx + (\<Sum>st\<leftarrow>sts. latitude st * (1 / (1 + (detection_time st - m)\<^sup>2))),
      sy + (\<Sum>st\<leftarrow>sts. longitude st * (1 / (1 + (detection_time st - m)\<^sup>2))),
      tw + (\<Sum>st\<leftarrow>sts. 1 / (1 + (detection_time st - m)\<^sup>2)))"
  by (induction sts arbitrary: sx sy tw) (simp_all add: weightStep_def Let_def add.assoc power2_eq_square)


lemma sum_list_map_pos:
  fixes f :: "'a \<Rightarrow> real"
  assumes "xs \<noteq> []" and "\<forall>x \<in> set xs. 0 < f x"
  shows "0 < (\<Sum>x\<leftarrow>xs. f x)"
  using assms
proof (induction xs)
  case Nil
  then show ?case by simp
next
  case (Cons x xs)
  show ?case
  proof (cases "xs = []")
    case True
    with Cons.prems show ?thesis by simp
  next
    case False
    with Cons.IH Cons.prems have "0 < (\<Sum>x\<leftarrow>xs. f x)" by simp
    with Cons.prems show ?thesis by (simp add: add_pos_pos)
  qed
qed

lemma simpleTriangulation_total_weight_pos:
  assumes "sts \<noteq> []"
  shows "0 < snd (snd (fold (weightStep min_time) sts (0, 0, 0)))"
proof -
  have "\<forall>st \<in> set sts. 0 < 1 / (1 + (detection_time st - min_time)\<^sup>2)"
    by (simp add: add_pos_nonneg)
  with assms have "0 < (\<Sum>st\<leftarrow>sts. 1 / (1 + (detection_time st - min_time)\<^sup>2))"
    by (rule sum_list_map_pos)
  then show ?thesis by (simp add: fold_weightStep)
qed


lemma sqrt_36: "sqrt 36 = 6"
  using real_sqrt_abs [of 6] by simp



section \<open>The combiner\<close>





section \<open>The driver below the threshold\<close>

text \<open>
  C7. Given exactly one station \<open>S\<close>, and any region (and any depth counter),
  \<^verbatim>\<open>locateEpicenter\<close> returns, and what it returns has the location of \<open>S\<close>
  (its latitude and longitude), confidence 1 and error 0.
\<close>

theorem locateEpicenter_single_station:
  "locateEpicenter [S] bnds depth =
     Some \<lparr>location = \<lparr>px = latitude S, py = longitude S\<rparr>, confidence = 1, error = 0\<rparr>"
  by (simp add: locateEpicenter.simps BASE_CASE_SIZE_def simpleTriangulation_def)

text \<open>
  C8. Given no station, and any region, \<^verbatim>\<open>locateEpicenter\<close> returns the sentinel
  estimate: location (0, 0), confidence 0 and error 1e9.
\<close>

theorem locateEpicenter_empty_sentinel:
  "locateEpicenter [] bnds depth =
     Some \<lparr>location = \<lparr>px = 0, py = 0\<rparr>, confidence = 0, error = 1000000000\<rparr>"
  by (simp add: locateEpicenter.simps BASE_CASE_SIZE_def simpleTriangulation_def)

text \<open>
  C9. For a station list of at most \<open>BASE_CASE_SIZE\<close> = 8 stations, and any region,
  \<^verbatim>\<open>locateEpicenter\<close> returns exactly what \<^verbatim>\<open>simpleTriangulation\<close> returns on
  the same list. The witness has exactly 8 stations.
\<close>

theorem locateEpicenter_at_threshold:
  assumes "length sts \<le> BASE_CASE_SIZE"
  shows "locateEpicenter sts bnds depth = Some (simpleTriangulation sts)"
  using assms by (simp add: locateEpicenter.simps)

theorem locateEpicenter_at_threshold_witness:
  "length (map (\<lambda>k. \<lparr>latitude = real k, longitude = 2 * real k, detection_time = 1,
                        id' = int k\<rparr>) [0..<8]) = 8
   \<and> BASE_CASE_SIZE = 8
   \<and> locateEpicenter
        (map (\<lambda>k. \<lparr>latitude = real k, longitude = 2 * real k, detection_time = 1,
                     id' = int k\<rparr>) [0..<8])
        \<lparr>min_lat = 0, max_lat = 10, min_lon = 0, max_lon = 20\<rparr> 0
     = Some (simpleTriangulation
        (map (\<lambda>k. \<lparr>latitude = real k, longitude = 2 * real k, detection_time = 1,
                     id' = int k\<rparr>) [0..<8]))"
proof -
  let ?sts = "map (\<lambda>k. \<lparr>latitude = real k, longitude = 2 * real k, detection_time = 1,
                          id' = int k\<rparr>) [0..<8]"
  have len: "length ?sts \<le> BASE_CASE_SIZE"
    by (simp add: BASE_CASE_SIZE_def)
  show ?thesis
    using locateEpicenter_at_threshold [OF len] by (simp add: BASE_CASE_SIZE_def)
qed

section \<open>Termination of the recursion\<close>

lemma partition_all_first:
  assumes "\<forall>station \<in> set sts. contains (bounds quad) station"
  shows "fold assignStation sts (quad # quads) = quad\<lparr>stations := stations quad @ sts\<rparr> # quads"
  using assms by (induction sts arbitrary: quad) simp_all

lemma atCorner_partition:
  assumes "atCorner sts bnds"
  shows "\<exists>quad quads. partitionStations sts (quadrantsOf bnds) = quad # quads
     \<and> stations quad = sts \<and> atCorner sts (bounds quad)"
proof -
  let ?sw = "\<lparr>min_lat = min_lat bnds, max_lat = (min_lat bnds + max_lat bnds) / 2,
             min_lon = min_lon bnds, max_lon = (min_lon bnds + max_lon bnds) / 2\<rparr>"
  obtain quads where q: "quadrantsOf bnds = newQuadrant ?sw # quads"
    by (simp add: quadrantsOf_def Let_def)
  from assms have "\<forall>station \<in> set sts. contains (bounds (newQuadrant ?sw)) station"
    by (auto simp: atCorner_def list_all_iff contains_def newQuadrant_def)
  from partition_all_first [OF this, of quads]
  have "partitionStations sts (quadrantsOf bnds) =
      (newQuadrant ?sw)\<lparr>stations := stations (newQuadrant ?sw) @ sts\<rparr> # quads"
    by (simp add: partitionStations_def q)
  moreover from assms have "atCorner sts ?sw"
    by (auto simp: atCorner_def)
  ultimately show ?thesis
    by (simp add: newQuadrant_def)
qed

lemma atCorner_never_returns:
  assumes "atCorner sts bnds"
  shows "locateEpicenter sts bnds depth = None"
proof (rule ccontr)
  assume "locateEpicenter sts bnds depth \<noteq> None"
  then obtain r where ret: "locateEpicenter sts bnds depth = Some r" by blast
  have "\<not> atCorner sts bnds"
  proof (rule locateEpicenter.raw_induct
      [where P = "\<lambda>sts bnds depth r. \<not> atCorner sts bnds", OF _ ret])
    fix rec sts bnds depth r
    assume IH: "\<And>s b d y. rec s b d = Some y \<Longrightarrow> \<not> atCorner s b"
      and body: "(if length sts \<le> BASE_CASE_SIZE then Some (simpleTriangulation sts)
        else Option.bind
              (solveQuadrants rec depth (partitionStations sts (quadrantsOf bnds)) [])
              (\<lambda>(quadrants, results). Some (weightedCombination results))) = Some r"
    show "\<not> atCorner sts bnds"
    proof
      assume c: "atCorner sts bnds"
      then have big: "\<not> length sts \<le> BASE_CASE_SIZE" and ne: "sts \<noteq> []"
        by (auto simp: atCorner_def)
      from atCorner_partition [OF c] obtain quad quads where
        p: "partitionStations sts (quadrantsOf bnds) = quad # quads"
        and st: "stations quad = sts" and c': "atCorner sts (bounds quad)"
        by blast
      from body big p st ne obtain y where "rec sts (bounds quad) (depth + 1) = Some y"
        by (auto simp: bind_eq_Some_conv)
      from IH [OF this] c' show False by contradiction
    qed
  qed
  with assms show False by contradiction
qed

text \<open>
  C1. The claim is that \<^verbatim>\<open>locateEpicenter\<close> terminates for every station list and
  region, each recursive call reaching the base case or strictly reducing the station
  count. The source does not do so: nine stations at one place all fall into the
  south-west quadrant, which is again a region with the nine stations at its south-west
  corner, so the call on it is made with the same station list, and so on without end
  (lemma \<open>atCorner_never_returns\<close>). The call never returns: its value is \<open>None\<close>.
\<close>

theorem locateEpicenter_colocated_never_returns:
  "locateEpicenter
     (map (\<lambda>k. \<lparr>latitude = 0, longitude = 0, detection_time = real k, id' = int k\<rparr>) [0..<9])
     exampleRegion 0 = None"
  by (rule atCorner_never_returns) (simp add: atCorner_def BASE_CASE_SIZE_def list_all_iff)

section \<open>Double arithmetic: range and order\<close>

lemma pow2_1024: "(2::real) ^ 1024 = 2 * 2 ^ 1023"
proof -
  have e: "(1::nat) + 1023 = 1024" by simp
  from power_add [of "2::real" 1 1023, unfolded e] show ?thesis by (simp only: power_one_right)
qed

lemma DBL_MAX_ge: "2 ^ 1023 \<le> DBL_MAX"
proof -
  have "(2::real) ^ 971 \<le> 2 ^ 1023" by (rule power_increasing) simp_all
  then show ?thesis unfolding DBL_MAX_def pow2_1024 by linarith
qed

lemma DBL_MAX_less_threshold: "DBL_MAX < overflowThreshold"
proof -
  have "(2::real) ^ 970 < 2 ^ 971" by (rule power_strict_increasing) simp_all
  then show ?thesis unfolding DBL_MAX_def overflowThreshold_def by linarith
qed

lemma threshold_le: "overflowThreshold \<le> 2 ^ 1024"
proof -
  have "(0::real) \<le> 2 ^ 970" by (rule zero_le_power) simp
  then show ?thesis unfolding overflowThreshold_def by linarith
qed

lemma DBL_MAX_pos: "0 < DBL_MAX"
proof -
  have "(0::real) < 2 ^ 1023" by (rule zero_less_power) simp
  with DBL_MAX_ge show ?thesis by linarith
qed

lemma DBL_MAX_ge_2: "2 \<le> DBL_MAX"
proof -
  have "(2::real) ^ 1 \<le> 2 ^ 1023" by (rule power_increasing) simp_all
  with DBL_MAX_ge show ?thesis by simp
qed

lemma toDouble_Val: "\<bar>x\<bar> \<le> DBL_MAX \<Longrightarrow> toDouble x = Val x"
  by (simp add: toDouble_def)

lemma toDouble_PInf: "overflowThreshold \<le> x \<Longrightarrow> toDouble x = PInf"
  using DBL_MAX_less_threshold DBL_MAX_pos by (simp add: toDouble_def)

lemma small_le_DBL_MAX: "\<bar>x\<bar> \<le> 1024 \<Longrightarrow> \<bar>x\<bar> \<le> DBL_MAX"
proof -
  assume a: "\<bar>x\<bar> \<le> 1024"
  have "(2::real) ^ 10 \<le> 2 ^ 1023" by (rule power_increasing) simp_all
  moreover have "(2::real) ^ 10 = 1024" by simp
  ultimately show ?thesis using a DBL_MAX_ge by linarith
qed

lemma toDouble_small: "\<bar>x\<bar> \<le> 1024 \<Longrightarrow> toDouble x = Val x"
  by (rule toDouble_Val) (rule small_le_DBL_MAX)


lemma toDouble_nonneg: "0 \<le> x \<Longrightarrow> nonnegDouble (toDouble x)"
  using DBL_MAX_pos by (simp add: toDouble_def nonnegDouble_def)

lemma dle_trans: "dle a b \<Longrightarrow> dle b c \<Longrightarrow> dle a c"
  by (cases a; cases b; cases c) auto

lemma dle_antisym: "dle a b \<Longrightarrow> dle b a \<Longrightarrow> a = b"
  by (cases a; cases b) auto

lemma dle_total: "dle a a \<Longrightarrow> dle m m \<Longrightarrow> dle a m \<or> dle m a"
  by (cases a; cases m) auto

lemma dle_refl_left: "dle a b \<Longrightarrow> dle a a"
  by (cases a; cases b) auto

lemma dle_refl_right: "dle a b \<Longrightarrow> dle b b"
  by (cases a; cases b) auto

text \<open>The definitions that evaluate the model on a concrete input.\<close>

lemmas fp_eval =
  simpleTriangulation_fp_def Let_def minTimeStep_fp_def dmin_def weightStep_fp_def
  errorStep_fp_def residual_fp_def distance_fp_def dsub_def WAVE_VELOCITY_def toDouble_small

lemmas partition_eval =
  partitionStations_fp_def quadrantsOf_fp_def Let_def newQuadrant_fp_def contains_fp_def dge_def
  toDouble_small

text \<open>The detection time \<open>2\<^sup>6\<^sup>0\<^sup>0\<close>: finite, with a square beyond the range, also when a
  travel time of at most 1 is subtracted first.\<close>

lemma far_time_facts:
  fixes T :: real
  assumes "T = 2 ^ 600"
  shows "0 < T" and "\<bar>T\<bar> \<le> DBL_MAX" and "toDouble T = Val T" and "toDouble (T * T) = PInf"
    and "\<And>a. 0 \<le> a \<Longrightarrow> a \<le> 1 \<Longrightarrow> toDouble (a - T) = Val (a - T)"
    and "\<And>a. 0 \<le> a \<Longrightarrow> a \<le> 1 \<Longrightarrow> toDouble ((a - T) * (a - T)) = PInf"
proof -
  show pos: "0 < T" unfolding assms by (rule zero_less_power) simp
  have "(2::real) ^ 600 \<le> 2 ^ 1023" by (rule power_increasing) simp_all
  with DBL_MAX_ge have le: "T \<le> DBL_MAX" unfolding assms by linarith
  with pos show abs: "\<bar>T\<bar> \<le> DBL_MAX" by simp
  then show "toDouble T = Val T" by (rule toDouble_Val)
  have "(2::real) ^ 1 \<le> 2 ^ 600" by (rule power_increasing) simp_all
  then have ge2: "2 \<le> T" unfolding assms by simp
  have e: "(600::nat) + 600 = 1200" by simp
  have sq: "T * T = 2 ^ 1200"
    unfolding assms using power_add [of "2::real" 600 600, unfolded e] by simp
  have e2: "(2::nat) + 1198 = 1200" by simp
  have "(2::real) ^ 2 = 4" by simp
  with power_add [of "2::real" 2 1198, unfolded e2] have q: "(2::real) ^ 1200 = 4 * 2 ^ 1198"
    by simp
  have big: "(2::real) ^ 1024 \<le> 2 ^ 1198" by (rule power_increasing) simp_all
  have "(0::real) \<le> 2 ^ 1198" by simp
  with big threshold_le q sq have "overflowThreshold \<le> T * T" by linarith
  then show "toDouble (T * T) = PInf" by (rule toDouble_PInf)
  fix a :: real
  assume a: "0 \<le> a" "a \<le> 1"
  with pos le ge2 have "\<bar>a - T\<bar> \<le> DBL_MAX" by simp
  then show "toDouble (a - T) = Val (a - T)" by (rule toDouble_Val)
  from a ge2 have h: "T / 2 \<le> T - a" and h0: "0 \<le> T / 2" by simp_all
  then have "(T / 2) * (T / 2) \<le> (T - a) * (T - a)"
    by (intro mult_mono) simp_all
  moreover have "(T - a) * (T - a) = (a - T) * (a - T)" by (simp add: algebra_simps)
  moreover have "(T / 2) * (T / 2) = 2 ^ 1198" using sq q by simp
  ultimately have "overflowThreshold \<le> (a - T) * (a - T)"
    using big threshold_le by linarith
  then show "toDouble ((a - T) * (a - T)) = PInf" by (rule toDouble_PInf)
qed

lemma sqrt2_over_6: "0 \<le> sqrt 2 / 6" "sqrt 2 / 6 \<le> 1"
proof -
  show "0 \<le> sqrt 2 / 6" by simp
  have "sqrt 2 \<le> sqrt 4" by (rule real_sqrt_le_mono) simp
  then have "sqrt 2 \<le> 2" by simp
  then show "sqrt 2 / 6 \<le> 1" by simp
qed


section \<open>Splitting a region in double arithmetic\<close>

lemma quadrantsOf_fp_length: "length (quadrantsOf_fp bnds) = 4"
  by (simp add: quadrantsOf_fp_def Let_def)

lemma quadrantsOf_fp_bounds:
  "map bounds_fp (quadrantsOf_fp bnds) =
     [\<lparr>min_lat_fp = min_lat_fp bnds, max_lat_fp = px_fp (center_fp bnds),
       min_lon_fp = min_lon_fp bnds, max_lon_fp = py_fp (center_fp bnds)\<rparr>,
      \<lparr>min_lat_fp = min_lat_fp bnds, max_lat_fp = px_fp (center_fp bnds),
       min_lon_fp = py_fp (center_fp bnds), max_lon_fp = max_lon_fp bnds\<rparr>,
      \<lparr>min_lat_fp = px_fp (center_fp bnds), max_lat_fp = max_lat_fp bnds,
       min_lon_fp = min_lon_fp bnds, max_lon_fp = py_fp (center_fp bnds)\<rparr>,
      \<lparr>min_lat_fp = px_fp (center_fp bnds), max_lat_fp = max_lat_fp bnds,
       min_lon_fp = py_fp (center_fp bnds), max_lon_fp = max_lon_fp bnds\<rparr>]"
  by (simp add: quadrantsOf_fp_def Let_def newQuadrant_fp_def center_fp_def)

lemma quadrant_fp_cover:
  assumes "dle (px_fp (center_fp bnds)) (px_fp (center_fp bnds))"
    and "dle (py_fp (center_fp bnds)) (py_fp (center_fp bnds))"
    and "contains_fp bnds station"
  shows "\<exists>b \<in> set (map bounds_fp (quadrantsOf_fp bnds)). contains_fp b station"
proof -
  from assms(3) have lat: "dle (latitude_fp station) (latitude_fp station)"
    and lon: "dle (longitude_fp station) (longitude_fp station)"
    by (auto simp: contains_fp_def dge_def dest: dle_refl_left)
  from dle_total [OF lat assms(1)] dle_total [OF lon assms(2)] assms(3)
  show ?thesis
    unfolding quadrantsOf_fp_bounds by (auto simp: contains_fp_def dge_def)
qed

lemma quadrant_fp_within:
  assumes "dle (min_lat_fp bnds) (px_fp (center_fp bnds))"
    and "dle (px_fp (center_fp bnds)) (max_lat_fp bnds)"
    and "dle (min_lon_fp bnds) (py_fp (center_fp bnds))"
    and "dle (py_fp (center_fp bnds)) (max_lon_fp bnds)"
    and "b \<in> set (map bounds_fp (quadrantsOf_fp bnds))"
    and "contains_fp b station"
  shows "contains_fp bnds station"
  using assms(5,6) unfolding quadrantsOf_fp_bounds
  by (auto simp: contains_fp_def dge_def
      intro: dle_trans [OF _ assms(2)] dle_trans [OF assms(1)]
             dle_trans [OF _ assms(4)] dle_trans [OF assms(3)])

lemma quadrant_fp_overlap:
  assumes "i < j" "j < 4"
    and "contains_fp (map bounds_fp (quadrantsOf_fp bnds) ! i) station"
    and "contains_fp (map bounds_fp (quadrantsOf_fp bnds) ! j) station"
  shows "latitude_fp station = px_fp (center_fp bnds) \<or>
         longitude_fp station = py_fp (center_fp bnds)"
proof -
  from assms(1,2) have "(i, j) \<in> {(0,1), (0,2), (0,3), (1,2), (1,3), (2,3)}"
    by auto
  with assms(3,4) show ?thesis
    unfolding quadrantsOf_fp_bounds
    by (auto simp: contains_fp_def dge_def dest: dle_antisym)
qed

lemma midpoint_between:
  assumes "a \<le> b" and "\<bar>a + b\<bar> \<le> DBL_MAX"
  shows "dle (Val a) (ddiv (dadd (Val a) (Val b)) (Val 2))
       \<and> dle (ddiv (dadd (Val a) (Val b)) (Val 2)) (Val b)"
proof -
  from assms(2) have "\<bar>(a + b) / 2\<bar> \<le> DBL_MAX" by simp
  with assms show ?thesis by (simp add: toDouble_Val)
qed

text \<open>
  C6, as amended. The claim is made for every region with \<open>min_lat \<le> max_lat\<close> and
  \<open>min_lon \<le> max_lon\<close>; it fails where \<^verbatim>\<open>min + max\<close> overflows (the
  counterexample follows the witness). What holds: for every region whose
  midpoint latitude and longitude, as lines 90-91 compute them, lie between its bounds
  (\<open>min \<le> mid \<le> max\<close> on both axes; by lemma \<open>midpoint_between\<close> this is so for finite
  bounds with \<open>min \<le> max\<close> whose sum does not overflow), the split gives four
  quadrants; a point (the coordinates of any station) is in the region exactly when it
  is in one of the four quadrants, so their union is the region; and a point that two
  different quadrants contain lies on a midpoint line: its latitude is the midpoint
  latitude or its longitude is the midpoint longitude. The midpoints are the
  coordinates of \<open>center_fp\<close>.
\<close>

theorem quadrantsOf_fp_partition_coverage:
  assumes "dle (min_lat_fp bnds) (px_fp (center_fp bnds))"
    and "dle (px_fp (center_fp bnds)) (max_lat_fp bnds)"
    and "dle (min_lon_fp bnds) (py_fp (center_fp bnds))"
    and "dle (py_fp (center_fp bnds)) (max_lon_fp bnds)"
  shows "length (quadrantsOf_fp bnds) = 4
    \<and> (\<forall>station. contains_fp bnds station \<longleftrightarrow>
          (\<exists>quad \<in> set (quadrantsOf_fp bnds). contains_fp (bounds_fp quad) station))
    \<and> (\<forall>i j station. i < j \<and> j < 4
          \<and> contains_fp (bounds_fp (quadrantsOf_fp bnds ! i)) station
          \<and> contains_fp (bounds_fp (quadrantsOf_fp bnds ! j)) station
          \<longrightarrow> latitude_fp station = px_fp (center_fp bnds)
              \<or> longitude_fp station = py_fp (center_fp bnds))"
proof (intro conjI allI impI)
  show "length (quadrantsOf_fp bnds) = 4" by (rule quadrantsOf_fp_length)
next
  fix station
  have m: "dle (px_fp (center_fp bnds)) (px_fp (center_fp bnds))"
    "dle (py_fp (center_fp bnds)) (py_fp (center_fp bnds))"
    using assms(1,3) by (auto dest: dle_refl_right)
  show "contains_fp bnds station \<longleftrightarrow>
          (\<exists>quad \<in> set (quadrantsOf_fp bnds). contains_fp (bounds_fp quad) station)"
    using quadrant_fp_cover [OF m, of station] quadrant_fp_within [OF assms, of _ station]
    by auto
next
  fix i j station
  assume h: "i < j \<and> j < 4
          \<and> contains_fp (bounds_fp (quadrantsOf_fp bnds ! i)) station
          \<and> contains_fp (bounds_fp (quadrantsOf_fp bnds ! j)) station"
  then have "contains_fp (map bounds_fp (quadrantsOf_fp bnds) ! i) station"
    and "contains_fp (map bounds_fp (quadrantsOf_fp bnds) ! j) station"
    by (simp_all add: quadrantsOf_fp_length)
  with h show "latitude_fp station = px_fp (center_fp bnds)
      \<or> longitude_fp station = py_fp (center_fp bnds)"
    using quadrant_fp_overlap [of i j bnds station] by blast
qed

theorem quadrantsOf_fp_partition_coverage_witness:
  "dle (min_lat_fp exampleRegion_fp) (px_fp (center_fp exampleRegion_fp))
   \<and> dle (px_fp (center_fp exampleRegion_fp)) (max_lat_fp exampleRegion_fp)
   \<and> dle (min_lon_fp exampleRegion_fp) (py_fp (center_fp exampleRegion_fp))
   \<and> dle (py_fp (center_fp exampleRegion_fp)) (max_lon_fp exampleRegion_fp)
   \<and> center_fp exampleRegion_fp = \<lparr>px_fp = Val 5, py_fp = Val 5\<rparr>
   \<and> length (quadrantsOf_fp exampleRegion_fp) = 4
   \<and> contains_fp exampleRegion_fp
        \<lparr>latitude_fp = Val 5, longitude_fp = Val 3, detection_time_fp = Val 0, id_fp = 0\<rparr>
   \<and> contains_fp (bounds_fp (quadrantsOf_fp exampleRegion_fp ! 0))
        \<lparr>latitude_fp = Val 5, longitude_fp = Val 3, detection_time_fp = Val 0, id_fp = 0\<rparr>
   \<and> contains_fp (bounds_fp (quadrantsOf_fp exampleRegion_fp ! 2))
        \<lparr>latitude_fp = Val 5, longitude_fp = Val 3, detection_time_fp = Val 0, id_fp = 0\<rparr>
   \<and> (latitude_fp \<lparr>latitude_fp = Val 5, longitude_fp = Val 3, detection_time_fp = Val 0,
                      id_fp = 0\<rparr> = px_fp (center_fp exampleRegion_fp)
        \<or> longitude_fp \<lparr>latitude_fp = Val 5, longitude_fp = Val 3, detection_time_fp = Val 0,
                         id_fp = 0\<rparr> = py_fp (center_fp exampleRegion_fp))"
proof -
  let ?s = "\<lparr>latitude_fp = Val 5, longitude_fp = Val 3, detection_time_fp = Val 0, id_fp = 0\<rparr>"
  have ctr: "center_fp exampleRegion_fp = \<lparr>px_fp = Val 5, py_fp = Val 5\<rparr>"
    by (simp add: center_fp_def toDouble_small)
  have h: "dle (min_lat_fp exampleRegion_fp) (px_fp (center_fp exampleRegion_fp))"
    "dle (px_fp (center_fp exampleRegion_fp)) (max_lat_fp exampleRegion_fp)"
    "dle (min_lon_fp exampleRegion_fp) (py_fp (center_fp exampleRegion_fp))"
    "dle (py_fp (center_fp exampleRegion_fp)) (max_lon_fp exampleRegion_fp)"
    by (simp_all add: ctr)
  have c: "contains_fp exampleRegion_fp ?s"
    by (simp add: contains_fp_def dge_def)
  have c0: "contains_fp (bounds_fp (quadrantsOf_fp exampleRegion_fp ! 0)) ?s"
    by (simp add: partition_eval)
  have c2: "contains_fp (bounds_fp (quadrantsOf_fp exampleRegion_fp ! 2)) ?s"
    by (simp add: partition_eval)
  note t = quadrantsOf_fp_partition_coverage [OF h]
  from t have len: "length (quadrantsOf_fp exampleRegion_fp) = 4" by blast
  from t [THEN conjunct2, THEN conjunct2, rule_format, of 0 2 ?s] c0 c2
  have "latitude_fp ?s = px_fp (center_fp exampleRegion_fp)
      \<or> longitude_fp ?s = py_fp (center_fp exampleRegion_fp)"
    by simp
  with h ctr len c c0 c2 show ?thesis by blast
qed

text \<open>
  C6, the counterexample. The region with latitudes from \<open>2\<^sup>1\<^sup>0\<^sup>2\<^sup>3\<close> to \<open>1.5 * 2\<^sup>1\<^sup>0\<^sup>2\<^sup>3\<close>
  and longitudes from 0 to 1 has finite bounds with \<open>min \<le> max\<close>. The sum of its
  latitudes is beyond the range, so the midpoint latitude is plus infinity and the
  south-west quadrant reaches from \<open>2\<^sup>1\<^sup>0\<^sup>2\<^sup>3\<close> to plus infinity: it contains the station at
  latitude \<open>1.75 * 2\<^sup>1\<^sup>0\<^sup>2\<^sup>3\<close>, which the region does not contain. The three numbers are
  written as 4, 6 and 7 times \<open>2\<^sup>1\<^sup>0\<^sup>2\<^sup>1\<close>.
\<close>

theorem quadrantsOf_fp_midpoint_overflow:
  "\<bar>4 * 2 ^ 1021\<bar> \<le> DBL_MAX \<and> \<bar>6 * 2 ^ 1021\<bar> \<le> DBL_MAX \<and> \<bar>7 * 2 ^ 1021\<bar> \<le> DBL_MAX
   \<and> dle (Val (4 * 2 ^ 1021)) (Val (6 * 2 ^ 1021))
   \<and> dle (Val 0) (Val 1)
   \<and> bounds_fp (quadrantsOf_fp
        \<lparr>min_lat_fp = Val (4 * 2 ^ 1021), max_lat_fp = Val (6 * 2 ^ 1021),
         min_lon_fp = Val 0, max_lon_fp = Val 1\<rparr> ! 0)
       = \<lparr>min_lat_fp = Val (4 * 2 ^ 1021), max_lat_fp = PInf,
          min_lon_fp = Val 0, max_lon_fp = Val (1 / 2)\<rparr>
   \<and> contains_fp
        (bounds_fp (quadrantsOf_fp
          \<lparr>min_lat_fp = Val (4 * 2 ^ 1021), max_lat_fp = Val (6 * 2 ^ 1021),
           min_lon_fp = Val 0, max_lon_fp = Val 1\<rparr> ! 0))
        \<lparr>latitude_fp = Val (7 * 2 ^ 1021), longitude_fp = Val (1 / 4),
         detection_time_fp = Val 0, id_fp = 0\<rparr>
   \<and> \<not> contains_fp
        \<lparr>min_lat_fp = Val (4 * 2 ^ 1021), max_lat_fp = Val (6 * 2 ^ 1021),
         min_lon_fp = Val 0, max_lon_fp = Val 1\<rparr>
        \<lparr>latitude_fp = Val (7 * 2 ^ 1021), longitude_fp = Val (1 / 4),
         detection_time_fp = Val 0, id_fp = 0\<rparr>"
proof -
  define u :: real where "u = 2 ^ 1021"
  have u_pos: "0 < u" unfolding u_def by (rule zero_less_power) simp
  have e: "(3::nat) + 1021 = 1024" by simp
  have "(2::real) ^ 3 = 8" by simp
  with power_add [of "2::real" 3 1021, unfolded e] have p1024: "(2::real) ^ 1024 = 8 * u"
    by (simp only: u_def)
  have "(2::real) ^ 971 \<le> 2 ^ 1021" by (rule power_increasing) simp_all
  then have max7: "7 * u \<le> DBL_MAX"
    unfolding DBL_MAX_def p1024 u_def by linarith
  from threshold_le have thr: "overflowThreshold \<le> 10 * u"
    unfolding p1024 using u_pos by linarith
  have sum: "dadd (Val (4 * u)) (Val (6 * u)) = PInf"
    using thr by (simp add: toDouble_PInf)
  have half: "toDouble (1 / 2) = Val (1 / 2)"
    by (rule toDouble_small) simp
  have one: "toDouble 1 = Val 1"
    by (rule toDouble_small) simp
  show ?thesis
    unfolding u_def [symmetric]
    using u_pos max7 sum half one
    by (simp add: quadrantsOf_fp_def Let_def newQuadrant_fp_def contains_fp_def dge_def)
qed

section \<open>The base-case estimator in double arithmetic\<close>

lemma foldl_dmin_Val:
  "foldl dmin (Val m) (map Val ts) = Val (Min (insert m (set ts)))"
proof (induction ts arbitrary: m)
  case Nil
  show ?case by simp
next
  case (Cons t ts)
  have "dmin (Val m) (Val t) = Val (min m t)"
    by (auto simp: dmin_def min_def)
  moreover have "Min (insert (min m t) (set ts)) = Min (insert m (insert t (set ts)))"
    by (cases "ts = []") (simp_all add: min.assoc)
  ultimately show ?case
    using Cons.IH [of "min m t"] by simp
qed

lemma specMinTime_fp_finite:
  assumes "ts \<noteq> []" and "map detection_time_fp sts = map Val ts"
  shows "specMinTime_fp sts = Val (Min (set ts))"
proof -
  from assms obtain t ts' where ts: "ts = t # ts'" by (cases ts) auto
  with assms(2) have hd: "detection_time_fp (hd sts) = Val t" by (cases sts) auto
  have "specMinTime_fp sts = foldl dmin (Val t) (map Val ts)"
    unfolding specMinTime_fp_def by (simp only: assms(2) hd)
  also have "\<dots> = Val (Min (insert t (set ts)))" by (rule foldl_dmin_Val)
  also have "insert t (set ts) = set ts" using ts by auto
  finally show ?thesis .
qed

lemma fold_minTimeStep_fp:
  "fold minTimeStep_fp sts m = foldl dmin m (map detection_time_fp sts)"
  by (induction sts arbitrary: m) (simp_all add: minTimeStep_fp_def)

lemma fold_errorStep_fp:
  "fold (errorStep_fp m est) sts acc = foldl dadd acc (map (residual_fp m est) sts)"
  by (induction sts arbitrary: acc) (simp_all add: errorStep_fp_def)

lemma simpleTriangulation_fp_many:
  assumes "2 \<le> length sts"
  shows "error_fp (simpleTriangulation_fp sts) =
           specError_fp sts (location_fp (simpleTriangulation_fp sts))"
    and "confidence_fp (simpleTriangulation_fp sts) =
           specConfidence_fp (error_fp (simpleTriangulation_fp sts)) (length sts)"
proof -
  from assms have ne: "sts \<noteq> []" and l1: "length sts \<noteq> 1" by auto
  then have hd: "sts ! 0 = hd sts" by (simp add: hd_conv_nth)
  have r: "residual_fp (specMinTime_fp sts) est = specResidual_fp sts est" for est
    by (simp add: fun_eq_iff residual_fp_def specResidual_fp_def WAVE_VELOCITY_def Let_def)
  show "error_fp (simpleTriangulation_fp sts) =
           specError_fp sts (location_fp (simpleTriangulation_fp sts))"
    using ne l1
    by (simp add: simpleTriangulation_fp_def Let_def split_beta fold_minTimeStep_fp hd
        fold_errorStep_fp specMinTime_fp_def [symmetric] r specError_fp_def dsum_def)
  show "confidence_fp (simpleTriangulation_fp sts) =
           specConfidence_fp (error_fp (simpleTriangulation_fp sts)) (length sts)"
    using ne l1
    by (simp add: simpleTriangulation_fp_def Let_def split_beta specConfidence_fp_def)
qed

lemma dmul_self_nonneg: "nonnegDouble (dmul d d)"
  by (cases d) (simp_all add: toDouble_nonneg, simp_all add: nonnegDouble_def)

lemma dadd_nonneg: "nonnegDouble a \<Longrightarrow> nonnegDouble b \<Longrightarrow> nonnegDouble (dadd a b)"
  by (cases a; cases b) (simp_all add: nonnegDouble_def toDouble_nonneg [unfolded nonnegDouble_def])

lemma foldl_dadd_nonneg:
  "nonnegDouble acc \<Longrightarrow> \<forall>x \<in> set xs. nonnegDouble x \<Longrightarrow> nonnegDouble (foldl dadd acc xs)"
  by (induction xs arbitrary: acc) (simp_all add: dadd_nonneg)

lemma specError_fp_nonneg: "nonnegDouble (specError_fp sts est)"
proof -
  have "nonnegDouble (Val 0)"
    using DBL_MAX_pos by (simp add: nonnegDouble_def)
  moreover have "\<forall>x \<in> set (map (specResidual_fp sts est) sts). nonnegDouble x"
    by (simp add: specResidual_fp_def Let_def dmul_self_nonneg)
  ultimately show ?thesis
    unfolding specError_fp_def dsum_def by (rule foldl_dadd_nonneg)
qed

lemma specConfidence_fp_Val:
  assumes "0 \<le> e" and "e \<le> DBL_MAX" and "2 \<le> n"
  shows "specConfidence_fp (Val e) n = Val (1 / (1 + e / real n))"
proof -
  from assms(3) have n: "2 \<le> real n" by simp
  with assms(1) have "e / real n \<le> e / 2"
    by (intro divide_left_mono mult_pos_pos) linarith+
  with assms(2) have le: "e / real n \<le> DBL_MAX / 2" by simp
  from assms(1) n have ge: "0 \<le> e / real n" by simp
  from n have "real n \<noteq> 0" by simp
  moreover from le ge DBL_MAX_pos have "\<bar>e / real n\<bar> \<le> DBL_MAX"
    unfolding abs_of_nonneg [OF ge] by linarith
  moreover from le ge DBL_MAX_ge_2 have "\<bar>1 + e / real n\<bar> \<le> DBL_MAX"
    by (subst abs_of_nonneg) linarith+
  moreover from ge have "1 + e / real n \<noteq> 0" by simp
  moreover have "\<bar>1 / (1 + e / real n)\<bar> \<le> DBL_MAX"
  proof -
    from ge have "1 / (1 + e / real n) \<le> 1" by simp
    moreover from ge have "0 \<le> 1 / (1 + e / real n)" by simp
    ultimately show ?thesis using DBL_MAX_ge_2
      by (subst abs_of_nonneg) linarith+
  qed
  ultimately show ?thesis
    by (simp add: specConfidence_fp_def toDouble_Val)
qed

lemma specConfidence_fp_PInf: "0 < n \<Longrightarrow> specConfidence_fp PInf n = Val 0"
  by (simp add: specConfidence_fp_def)

lemma specConfidence_fp_NaN: "specConfidence_fp NaN n = NaN"
  by (simp add: specConfidence_fp_def)

lemma simpleTriangulation_fp_error_nonneg:
  "2 \<le> length sts \<Longrightarrow> nonnegDouble (error_fp (simpleTriangulation_fp sts))"
  by (simp add: simpleTriangulation_fp_many specError_fp_nonneg)

lemma normalizedError_fp_Val:
  assumes "2 \<le> length sts" and "error_fp (simpleTriangulation_fp sts) = Val e"
  shows "0 \<le> e" and "e \<le> DBL_MAX" and "normalizedError_fp sts = Val (e / real (length sts))"
proof -
  from simpleTriangulation_fp_error_nonneg [OF assms(1)] assms(2)
  show e: "0 \<le> e" and m: "e \<le> DBL_MAX" by (simp_all add: nonnegDouble_def)
  from assms(1) have n: "2 \<le> real (length sts)" by simp
  then have n0: "0 < real (length sts)" by linarith
  from e n n0 have "e / real (length sts) \<le> e / 2"
    by (intro divide_left_mono mult_pos_pos) linarith+
  with e m DBL_MAX_pos have "e / real (length sts) \<le> DBL_MAX" by linarith
  moreover from e n have ge: "0 \<le> e / real (length sts)" by simp
  ultimately have "\<bar>e / real (length sts)\<bar> \<le> DBL_MAX"
    by (subst abs_of_nonneg) simp_all
  moreover from assms(1) have "0 < length sts" by linarith
  then have "sts \<noteq> []" by simp
  ultimately show "normalizedError_fp sts = Val (e / real (length sts))"
    using assms(2) by (simp add: normalizedError_fp_def toDouble_Val)
qed

lemma confidence_fp_cases:
  assumes "2 \<le> length sts"
  shows "(\<exists>e. error_fp (simpleTriangulation_fp sts) = Val e \<and> 0 \<le> e
            \<and> normalizedError_fp sts = Val (e / real (length sts))
            \<and> confidence_fp (simpleTriangulation_fp sts) = Val (1 / (1 + e / real (length sts))))
       \<or> (error_fp (simpleTriangulation_fp sts) = PInf \<and> normalizedError_fp sts = PInf
            \<and> confidence_fp (simpleTriangulation_fp sts) = Val 0)
       \<or> (error_fp (simpleTriangulation_fp sts) = NaN \<and> normalizedError_fp sts = NaN
            \<and> confidence_fp (simpleTriangulation_fp sts) = NaN)"
proof (cases "error_fp (simpleTriangulation_fp sts)")
  case (Val e)
  from normalizedError_fp_Val [OF assms Val] specConfidence_fp_Val [of e "length sts"] assms Val
  show ?thesis by (simp add: simpleTriangulation_fp_many(2))
next
  case PInf
  moreover from assms have "0 < length sts" by linarith
  moreover from this have "sts \<noteq> []" by simp
  ultimately show ?thesis
    using assms
    by (simp add: simpleTriangulation_fp_many(2) specConfidence_fp_PInf normalizedError_fp_def)
next
  case NInf
  with simpleTriangulation_fp_error_nonneg [OF assms] show ?thesis
    by (simp add: nonnegDouble_def)
next
  case NaN
  with assms show ?thesis
    by (simp add: simpleTriangulation_fp_many(2) specConfidence_fp_NaN normalizedError_fp_def)
qed

text \<open>
  C4, as amended. The claim bounds the confidence in (0,1] for every list of two or
  more stations; it fails where a squared residual overflows (the counterexample
  follows the witness). What holds, for every list of two
  or more stations: the error that \<^verbatim>\<open>simpleTriangulation\<close> returns is the sum over the
  stations (not the mean), added from left to right, of the squared difference between
  \<open>distance(estimate, station) / 6\<close> and the station's \<open>timeDiff\<close>, where the estimate
  is the returned location; the confidence is \<open>1 / (1 + error / stationCount)\<close>; when
  the error is finite the confidence is greater than 0 and at most 1; when the error has
  overflowed to plus infinity the confidence is 0; in every case the confidence is NaN
  or a number from 0 to 1; and the confidence does not increase with the normalised
  error \<open>error / stationCount\<close>: a list of two or more stations with a greater
  normalised error has a confidence that is less or equal.
\<close>

theorem simpleTriangulation_fp_error_confidence:
  assumes "2 \<le> length sts"
  shows "error_fp (simpleTriangulation_fp sts) =
           specError_fp sts (location_fp (simpleTriangulation_fp sts))
    \<and> confidence_fp (simpleTriangulation_fp sts) =
           specConfidence_fp (error_fp (simpleTriangulation_fp sts)) (length sts)
    \<and> (\<forall>e. error_fp (simpleTriangulation_fp sts) = Val e \<longrightarrow>
          (\<exists>c. confidence_fp (simpleTriangulation_fp sts) = Val c \<and> 0 < c \<and> c \<le> 1))
    \<and> (error_fp (simpleTriangulation_fp sts) = PInf \<longrightarrow>
          confidence_fp (simpleTriangulation_fp sts) = Val 0)
    \<and> (confidence_fp (simpleTriangulation_fp sts) = NaN
        \<or> (\<exists>c. confidence_fp (simpleTriangulation_fp sts) = Val c \<and> 0 \<le> c \<and> c \<le> 1))
    \<and> (\<forall>sts'. 2 \<le> length sts'
          \<and> dlt (normalizedError_fp sts) (normalizedError_fp sts')
          \<longrightarrow> dle (confidence_fp (simpleTriangulation_fp sts'))
                  (confidence_fp (simpleTriangulation_fp sts)))"
proof -
  note f = simpleTriangulation_fp_many [OF assms]
  have fin: "\<exists>c. confidence_fp (simpleTriangulation_fp sts) = Val c \<and> 0 < c \<and> c \<le> 1"
    if "error_fp (simpleTriangulation_fp sts) = Val e" for e
  proof -
    from confidence_fp_cases [OF assms] that
    have e: "0 \<le> e"
      and c: "confidence_fp (simpleTriangulation_fp sts) = Val (1 / (1 + e / real (length sts)))"
      by auto
    from e have "0 \<le> e / real (length sts)" by simp
    then have "0 < 1 / (1 + e / real (length sts))" and "1 / (1 + e / real (length sts)) \<le> 1"
      by (simp_all add: add_pos_nonneg)
    with c show ?thesis by blast
  qed
  have inf: "confidence_fp (simpleTriangulation_fp sts) = Val 0"
    if "error_fp (simpleTriangulation_fp sts) = PInf"
    using confidence_fp_cases [OF assms] that by auto
  have range: "confidence_fp (simpleTriangulation_fp sts) = NaN
        \<or> (\<exists>c. confidence_fp (simpleTriangulation_fp sts) = Val c \<and> 0 \<le> c \<and> c \<le> 1)"
  proof (cases "error_fp (simpleTriangulation_fp sts)")
    case (Val e)
    from fin [OF this] show ?thesis by (auto intro: less_imp_le)
  next
    case PInf
    from inf [OF this] show ?thesis by simp
  next
    case NInf
    with confidence_fp_cases [OF assms] show ?thesis by simp
  next
    case NaN
    with confidence_fp_cases [OF assms] show ?thesis by simp
  qed
  have mono: "dle (confidence_fp (simpleTriangulation_fp sts'))
                  (confidence_fp (simpleTriangulation_fp sts))"
    if l': "2 \<le> length sts'"
      and lt: "dlt (normalizedError_fp sts) (normalizedError_fp sts')" for sts'
  proof -
    from confidence_fp_cases [OF assms] lt obtain e where
      e: "0 \<le> e" and n: "normalizedError_fp sts = Val (e / real (length sts))"
      and c: "confidence_fp (simpleTriangulation_fp sts) = Val (1 / (1 + e / real (length sts)))"
      by auto
    from confidence_fp_cases [OF l'] lt n consider
      (val) e' where "0 \<le> e'" "normalizedError_fp sts' = Val (e' / real (length sts'))"
        "confidence_fp (simpleTriangulation_fp sts') = Val (1 / (1 + e' / real (length sts')))"
      | (inf) "confidence_fp (simpleTriangulation_fp sts') = Val 0"
      by auto
    then show ?thesis
    proof cases
      case val
      from e have p: "0 < 1 + e / real (length sts)" by (simp add: add_pos_nonneg)
      from lt n val(2) have "e / real (length sts) < e' / real (length sts')" by simp
      with p have "1 / (1 + e' / real (length sts')) \<le> 1 / (1 + e / real (length sts))"
        by (intro divide_left_mono mult_pos_pos) linarith+
      with c val(3) show ?thesis by simp
    next
      case inf
      from e have "0 \<le> 1 / (1 + e / real (length sts))" by simp
      with c inf show ?thesis by simp
    qed
  qed
  from f fin inf range mono show ?thesis by blast
qed

theorem simpleTriangulation_fp_error_confidence_witness:
  "2 \<le> length [\<lparr>latitude_fp = Val 0, longitude_fp = Val 0, detection_time_fp = Val 0, id_fp = 0\<rparr>,
               \<lparr>latitude_fp = Val 0, longitude_fp = Val 0, detection_time_fp = Val 0, id_fp = 1\<rparr>]
   \<and> 2 \<le> length [\<lparr>latitude_fp = Val 0, longitude_fp = Val 0, detection_time_fp = Val 0, id_fp = 0\<rparr>,
                 \<lparr>latitude_fp = Val 0, longitude_fp = Val 12, detection_time_fp = Val 0, id_fp = 1\<rparr>]
   \<and> simpleTriangulation_fp
        [\<lparr>latitude_fp = Val 0, longitude_fp = Val 0, detection_time_fp = Val 0, id_fp = 0\<rparr>,
         \<lparr>latitude_fp = Val 0, longitude_fp = Val 12, detection_time_fp = Val 0, id_fp = 1\<rparr>]
       = \<lparr>location_fp = \<lparr>px_fp = Val 0, py_fp = Val 6\<rparr>, confidence_fp = Val (1 / 2),
          error_fp = Val 2\<rparr>
   \<and> error_fp (simpleTriangulation_fp
        [\<lparr>latitude_fp = Val 0, longitude_fp = Val 0, detection_time_fp = Val 0, id_fp = 0\<rparr>,
         \<lparr>latitude_fp = Val 0, longitude_fp = Val 12, detection_time_fp = Val 0, id_fp = 1\<rparr>])
       = specError_fp
           [\<lparr>latitude_fp = Val 0, longitude_fp = Val 0, detection_time_fp = Val 0, id_fp = 0\<rparr>,
            \<lparr>latitude_fp = Val 0, longitude_fp = Val 12, detection_time_fp = Val 0, id_fp = 1\<rparr>]
           \<lparr>px_fp = Val 0, py_fp = Val 6\<rparr>
   \<and> dlt (normalizedError_fp
        [\<lparr>latitude_fp = Val 0, longitude_fp = Val 0, detection_time_fp = Val 0, id_fp = 0\<rparr>,
         \<lparr>latitude_fp = Val 0, longitude_fp = Val 0, detection_time_fp = Val 0, id_fp = 1\<rparr>])
       (normalizedError_fp
        [\<lparr>latitude_fp = Val 0, longitude_fp = Val 0, detection_time_fp = Val 0, id_fp = 0\<rparr>,
         \<lparr>latitude_fp = Val 0, longitude_fp = Val 12, detection_time_fp = Val 0, id_fp = 1\<rparr>])
   \<and> dle (confidence_fp (simpleTriangulation_fp
        [\<lparr>latitude_fp = Val 0, longitude_fp = Val 0, detection_time_fp = Val 0, id_fp = 0\<rparr>,
         \<lparr>latitude_fp = Val 0, longitude_fp = Val 12, detection_time_fp = Val 0, id_fp = 1\<rparr>]))
       (confidence_fp (simpleTriangulation_fp
        [\<lparr>latitude_fp = Val 0, longitude_fp = Val 0, detection_time_fp = Val 0, id_fp = 0\<rparr>,
         \<lparr>latitude_fp = Val 0, longitude_fp = Val 0, detection_time_fp = Val 0, id_fp = 1\<rparr>]))"
proof -
  let ?near = "[\<lparr>latitude_fp = Val 0, longitude_fp = Val 0, detection_time_fp = Val 0, id_fp = 0\<rparr>,
                \<lparr>latitude_fp = Val 0, longitude_fp = Val 0, detection_time_fp = Val 0, id_fp = 1\<rparr>]"
  let ?far = "[\<lparr>latitude_fp = Val 0, longitude_fp = Val 0, detection_time_fp = Val 0, id_fp = 0\<rparr>,
               \<lparr>latitude_fp = Val 0, longitude_fp = Val 12, detection_time_fp = Val 0, id_fp = 1\<rparr>]"
  have len: "2 \<le> length ?near" "2 \<le> length ?far" by simp_all
  have near: "simpleTriangulation_fp ?near =
      \<lparr>location_fp = \<lparr>px_fp = Val 0, py_fp = Val 0\<rparr>, confidence_fp = Val 1, error_fp = Val 0\<rparr>"
    by (simp add: fp_eval)
  have far: "simpleTriangulation_fp ?far =
      \<lparr>location_fp = \<lparr>px_fp = Val 0, py_fp = Val 6\<rparr>, confidence_fp = Val (1 / 2),
       error_fp = Val 2\<rparr>"
    by (simp add: fp_eval sqrt_36)
  have lt: "dlt (normalizedError_fp ?near) (normalizedError_fp ?far)"
    by (simp add: normalizedError_fp_def near far toDouble_small)
  note t = simpleTriangulation_fp_error_confidence [OF len(1)]
  from t [THEN conjunct2, THEN conjunct2, THEN conjunct2, THEN conjunct2, THEN conjunct2,
      rule_format, of ?far] len(2) lt
  have le: "dle (confidence_fp (simpleTriangulation_fp ?far))
      (confidence_fp (simpleTriangulation_fp ?near))"
    by blast
  from simpleTriangulation_fp_error_confidence [OF len(2)]
  have "error_fp (simpleTriangulation_fp ?far) =
      specError_fp ?far (location_fp (simpleTriangulation_fp ?far))"
    by blast
  then have e: "error_fp (simpleTriangulation_fp ?far) =
      specError_fp ?far \<lparr>px_fp = Val 0, py_fp = Val 6\<rparr>"
    by (simp add: far)
  from len far e lt le show ?thesis by blast
qed

text \<open>
  C4, the counterexample. Two stations at (0,0) and (1,1) with the finite detection
  times 0 and \<open>2\<^sup>6\<^sup>0\<^sup>0\<close>: the square of the time difference overflows at line 150, so the
  second weight is 0 and the estimate is (0,0); the squared residual of the second
  station overflows at line 165, so the error is plus infinity and line 168 gives the
  confidence \<open>1 / (1 + inf)\<close> = 0, which is not greater than 0.
\<close>

theorem simpleTriangulation_fp_confidence_zero:
  "2 \<le> length [\<lparr>latitude_fp = Val 0, longitude_fp = Val 0, detection_time_fp = Val 0, id_fp = 0\<rparr>,
               \<lparr>latitude_fp = Val 1, longitude_fp = Val 1, detection_time_fp = Val farTime,
                id_fp = 1\<rparr>]
   \<and> farTime = 2 ^ 600 \<and> \<bar>farTime\<bar> \<le> DBL_MAX
   \<and> simpleTriangulation_fp
        [\<lparr>latitude_fp = Val 0, longitude_fp = Val 0, detection_time_fp = Val 0, id_fp = 0\<rparr>,
         \<lparr>latitude_fp = Val 1, longitude_fp = Val 1, detection_time_fp = Val farTime,
          id_fp = 1\<rparr>]
       = \<lparr>location_fp = \<lparr>px_fp = Val 0, py_fp = Val 0\<rparr>, confidence_fp = Val 0, error_fp = PInf\<rparr>
   \<and> \<not> dlt (Val 0) (confidence_fp (simpleTriangulation_fp
        [\<lparr>latitude_fp = Val 0, longitude_fp = Val 0, detection_time_fp = Val 0, id_fp = 0\<rparr>,
         \<lparr>latitude_fp = Val 1, longitude_fp = Val 1, detection_time_fp = Val farTime,
          id_fp = 1\<rparr>]))"
proof -
  note T = far_time_facts [OF farTime_def]
  have r: "toDouble (sqrt 2 / 6 - farTime) = Val (sqrt 2 / 6 - farTime)"
    "toDouble ((sqrt 2 / 6 - farTime) * (sqrt 2 / 6 - farTime)) = PInf"
    using T(5,6) [OF sqrt2_over_6] by simp_all
  have s: "toDouble (sqrt 2 / 6) = Val (sqrt 2 / 6)"
    using sqrt2_over_6 by (intro toDouble_small) simp
  have n: "\<not> farTime < 0" using T(1) by simp
  have e: "simpleTriangulation_fp
        [\<lparr>latitude_fp = Val 0, longitude_fp = Val 0, detection_time_fp = Val 0, id_fp = 0\<rparr>,
         \<lparr>latitude_fp = Val 1, longitude_fp = Val 1, detection_time_fp = Val farTime,
          id_fp = 1\<rparr>]
       = \<lparr>location_fp = \<lparr>px_fp = Val 0, py_fp = Val 0\<rparr>, confidence_fp = Val 0, error_fp = PInf\<rparr>"
    by (simp add: fp_eval T(3,4) r s n)
  from farTime_def T(2) e show ?thesis by (intro conjI) simp_all
qed

section \<open>The recursion in double arithmetic\<close>











































end
